theory Spec2Isabelle
  imports Complex_Main "HOL-Library.Sublist"
begin

text \<open>
  A model of the execution core of the search tool: the classifier that separates
  thinking markup from the answer in a streamed reply (\<open>models_impl.py\<close>), the retry
  controller that tries a primary and a backup API (\<open>models_impl.py\<close>), the dispatcher
  that runs one task per model (\<open>parallel_executor.py\<close>) and the aggregator that builds
  the report (\<open>report_aggregator.py\<close>). Every function keeps the name it has in the
  source. What the source takes from outside (the replies of the API, the clock, the
  completion times of the tasks, the registry) is an argument of the function that uses
  it; an exception is a value \<open>Inl\<close> of a sum type; console output is left out.
\<close>

section \<open>Python text\<close>

text \<open>
  A Python \<open>str\<close> is a sequence of Unicode code points, and \<open>len\<close>, slicing and
  \<open>find\<close> count code points. A text is therefore modelled as the list of its code
  points. \<open>ascii\<close> writes an ASCII literal of the source; a literal with characters
  outside ASCII is written as its code points, with the source's text glossed in English.
\<close>

type_synonym pystr = "nat list"

definition ascii :: "string \<Rightarrow> pystr" where
  "ascii s = map of_char s"

text \<open>
  \<open>text.find(sub)\<close>: the lowest index at which \<open>sub\<close> occurs in \<open>text\<close>; Python's
  \<open>-1\<close> is \<open>None\<close>.
\<close>

fun py_find :: "pystr \<Rightarrow> pystr \<Rightarrow> nat option" where
  "py_find sub [] = (if sub = [] then Some 0 else None)"
| "py_find sub (c # cs) =
     (if prefix sub (c # cs) then Some 0 else map_option Suc (py_find sub cs))"

text \<open>\<open>sub in text\<close>.\<close>

definition py_in :: "pystr \<Rightarrow> pystr \<Rightarrow> bool" where
  "py_in sub text = (py_find sub text \<noteq> None)"

section \<open>The streaming classifier (models\_impl.py, \_process\_streaming\_response)\<close>

text \<open>The two markers, \<open><think>\<close> and \<open></think>\<close>.\<close>

definition think_open :: pystr where
  "think_open = ascii ''<think>''"

definition think_close :: pystr where
  "think_close = ascii ''</think>''"

text \<open>
  The local variables of \<open>_process_streaming_response\<close> that live across chunks.
  \<open>printable_total\<close> is rebuilt for every chunk from exactly the segments appended to
  \<open>final_content\<close> and is only printed; console output is not part of the model.
\<close>

record stream_state =
  msg :: pystr
  thinking_content :: pystr
  final_content :: pystr
  in_thinking :: bool

definition initial_state :: stream_state where
  "initial_state = \<lparr>msg = [], thinking_content = [], final_content = [], in_thinking = False\<rparr>"

text \<open>
  \<open>cut_idx = min([i for i in [start_idx, end_idx] if i != -1])\<close>, with \<open>None\<close> when both
  searches returned \<open>-1\<close> (the branch \<open>start_idx == -1 and end_idx == -1\<close>).
\<close>

fun cut_index :: "nat option \<Rightarrow> nat option \<Rightarrow> nat option" where
  "cut_index None None = None"
| "cut_index (Some i) None = Some i"
| "cut_index None (Some j) = Some j"
| "cut_index (Some i) (Some j) = Some (min i j)"

text \<open>
  One iteration of \<open>while text:\<close> on a non-empty \<open>text\<close>: split off the segment before
  the nearest marker, append it to \<open>final_content\<close> unless it is thinking text that is
  suppressed, then consume the marker the rest starts with and set the flag. The result
  is the new state and the text left to scan.
\<close>

definition scan_step :: "bool \<Rightarrow> pystr \<Rightarrow> stream_state \<Rightarrow> stream_state \<times> pystr" where
  "scan_step suppress_thinking text st =
     (let start_idx = py_find think_open text;
          end_idx = py_find think_close text;
          segment = (case cut_index start_idx end_idx of
                       None \<Rightarrow> text | Some cut_idx \<Rightarrow> take cut_idx text);
          text1 = (case cut_index start_idx end_idx of
                       None \<Rightarrow> [] | Some cut_idx \<Rightarrow> drop cut_idx text);
          st1 = (if segment \<noteq> [] \<and> \<not> (in_thinking st \<and> suppress_thinking)
                 then st\<lparr>final_content := final_content st @ segment\<rparr> else st)
      in if prefix think_open text1 then
           (st1\<lparr>in_thinking := True,
                thinking_content := thinking_content st1 @ think_open\<rparr>,
            drop (length think_open) text1)
         else if prefix think_close text1 then
           (st1\<lparr>thinking_content := thinking_content st1 @ think_close,
                in_thinking := False\<rparr>,
            drop (length think_close) text1)
         else (st1, text1))"

lemma think_open_eq: "think_open = [60, 116, 104, 105, 110, 107, 62]"
  by (simp add: think_open_def ascii_def)

lemma think_close_eq: "think_close = [60, 47, 116, 104, 105, 110, 107, 62]"
  by (simp add: think_close_def ascii_def)

lemma py_find_Some_prefix: "py_find sub t = Some i \<Longrightarrow> prefix sub (drop i t)"
  by (induction t arbitrary: i) (auto split: if_splits)

lemma py_find_Some_least:
  "py_find sub t = Some i \<Longrightarrow> j < i \<Longrightarrow> \<not> prefix sub (drop j t)"
proof (induction t arbitrary: i j)
  case Nil
  then show ?case by (auto split: if_splits)
next
  case (Cons c cs)
  then show ?case
    by (cases j) (auto split: if_splits)
qed

lemma py_find_None: "py_find sub t = None \<Longrightarrow> \<not> prefix sub (drop j t)"
proof (induction t arbitrary: j)
  case Nil
  then show ?case by (auto split: if_splits)
next
  case (Cons c cs)
  then show ?case
    by (cases j) (auto split: if_splits)
qed

lemma cut_index_Some:
  "cut_index (py_find think_open t) (py_find think_close t) = Some k \<Longrightarrow>
   prefix think_open (drop k t) \<or> prefix think_close (drop k t)"
  by (cases "py_find think_open t"; cases "py_find think_close t")
     (auto simp: min_def dest: py_find_Some_prefix split: if_splits)

text \<open>Every iteration of the loop shortens the text: the loop terminates.\<close>

lemma scan_step_shorter:
  "text \<noteq> [] \<Longrightarrow> length (snd (scan_step s text st)) < length text"
proof (cases "cut_index (py_find think_open text) (py_find think_close text)")
  case None
  then show "text \<noteq> [] \<Longrightarrow> ?thesis"
    by (simp add: scan_step_def Let_def think_open_eq think_close_eq)
next
  case (Some k)
  assume ne: "text \<noteq> []"
  from cut_index_Some [OF Some] show ?thesis
    using Some ne
    by (auto simp: scan_step_def Let_def think_open_eq think_close_eq prefix_def)
qed

text \<open>The loop \<open>while text: ...\<close> over one chunk's text.\<close>

function scan_text :: "bool \<Rightarrow> pystr \<Rightarrow> stream_state \<Rightarrow> stream_state" where
  "scan_text suppress_thinking [] st = st"
| "scan_text suppress_thinking (c # cs) st =
     (case scan_step suppress_thinking (c # cs) st of
        (st', text') \<Rightarrow> scan_text suppress_thinking text' st')"
  by pat_completeness auto
termination
proof (relation "measure (\<lambda>(s, text, st). length text)")
  show "wf (measure (\<lambda>(s, text, st). length text))" by simp
next
  fix s :: bool and c :: nat and cs :: pystr and st st' :: stream_state and text' :: pystr
  assume "(st', text') = scan_step s (c # cs) st"
  then have "text' = snd (scan_step s (c # cs) st)"
    by (metis snd_conv)
  then show "((s, text', st'), (s, c # cs, st)) \<in> measure (\<lambda>(s, text, st). length text)"
    using scan_step_shorter [of "c # cs" s st] by simp
qed

text \<open>
  What one item of the stream carries. The loop body reads the text of a chunk from
  \<open>chunk.choices[0].delta.get('content', '')\<close> when the chunk has choices, and from
  \<open>chunk.content\<close> otherwise; a chunk with neither, or with an empty text, is skipped.
\<close>

datatype chunk = Delta pystr | Content pystr | NoText

fun chunk_raw :: "chunk \<Rightarrow> pystr" where
  "chunk_raw (Delta raw) = raw"
| "chunk_raw (Content raw) = raw"
| "chunk_raw NoText = []"

text \<open>
  The body of \<open>for chunk in completion\<close>. Both branches of the source run the same
  statements on \<open>raw\<close>: \<open>msg += raw\<close>, then the scanning loop.
\<close>

definition process_chunk :: "bool \<Rightarrow> stream_state \<Rightarrow> chunk \<Rightarrow> stream_state" where
  "process_chunk suppress_thinking st ch =
     (let raw = chunk_raw ch
      in if raw \<noteq> [] then scan_text suppress_thinking raw (st\<lparr>msg := msg st @ raw\<rparr>)
         else st)"

text \<open>
  How the iteration over the stream ends: normally, or with an exception raised by the
  transport after the chunks received so far. The handler then tries to read a text from
  the completion object (\<open>completion.choices[0].message.get('content', '')\<close>, or
  \<open>completion.content\<close>) and assigns it to \<open>msg\<close>; \<open>StreamError None\<close> is the case
  where nothing is assigned (neither attribute exists, or the extraction raises and the
  inner \<open>except: pass\<close> swallows it). A \<open>None\<close> content assigned to \<open>msg\<close> is written
  \<open>[]\<close>: both are falsy and only returned, never inspected.
\<close>

datatype stream_end = EndOfStream | StreamError "pystr option"

fun after_stream :: "stream_end \<Rightarrow> stream_state \<Rightarrow> stream_state" where
  "after_stream EndOfStream st = st"
| "after_stream (StreamError None) st = st"
| "after_stream (StreamError (Some m)) st = st\<lparr>msg := m\<rparr>"

definition run_stream :: "bool \<Rightarrow> chunk list \<Rightarrow> stream_end \<Rightarrow> stream_state" where
  "run_stream suppress_thinking chunks e =
     after_stream e (foldl (process_chunk suppress_thinking) initial_state chunks)"

text \<open>
  \<open>_process_streaming_response\<close>: the text it returns (the completion object is returned
  unchanged beside it).
\<close>

definition process_streaming_response :: "bool \<Rightarrow> chunk list \<Rightarrow> stream_end \<Rightarrow> pystr" where
  "process_streaming_response suppress_thinking chunks e =
     (let st = run_stream suppress_thinking chunks e
      in if suppress_thinking \<and> final_content st \<noteq> [] then final_content st else msg st)"

section \<open>The retry controller (models\_impl.py, search\_with\_retry)\<close>

text \<open>An exception, as the handlers see it: \<open>type(err).__name__\<close> and \<open>str(err)\<close>.\<close>

datatype exn = Exn (error_type: pystr) (error_msg: pystr)

text \<open>
  What \<open>openai.ChatCompletion.create\<close> gives back. With \<open>stream=True\<close> the completion
  is an iterator of chunks; with \<open>stream=False\<close> it is a response object, of which the
  code reads \<open>completion.choices\<close> and \<open>completion.choices[0].message['content']\<close>:
  \<open>FullCompletion None\<close> has no choices, \<open>FullCompletion (Some m)\<close> has the content
  \<open>m\<close> (a \<open>None\<close> content is written \<open>[]\<close>: both are falsy).
\<close>

datatype completion =
    StreamCompletion "chunk list" stream_end
  | FullCompletion "pystr option"

datatype api_reply = Raises exn | Returns completion

datatype tier = Primary | Backup

text \<open>
  The observable steps of one call of \<open>search_with_retry\<close>: a request to a tier, with
  the loop variable \<open>attempt\<close> (counted from 0, as \<open>range(3)\<close> does), and a
  \<open>time.sleep\<close> with its argument in seconds. Status lines printed on the way are not
  part of the model.
\<close>

datatype event = Attempt tier nat | Sleep nat

text \<open>
  The body of the \<open>try\<close> block of one attempt: the exception it raises, or the pair it
  returns. \<open>_extract_final_answer\<close> rewrites the text of a non-streaming reply with
  regular expressions; nothing below depends on what it returns, so it is the parameter
  \<open>efa\<close> and every theorem holds for any function in its place. A completion of the
  wrong shape for the \<open>streaming\<close> flag yields no text when iterated and has no
  \<open>choices\<close> attribute; either way the attempt ends in an exception.
\<close>

definition no_valid_response :: exn where
  "no_valid_response = Exn (ascii ''ValueError'') (ascii ''No valid response received from API'')"

definition no_choices :: exn where
  "no_choices = Exn (ascii ''ValueError'') (ascii ''No choices returned from API.'')"

definition call_once ::
  "(pystr \<Rightarrow> pystr) \<Rightarrow> bool \<Rightarrow> bool \<Rightarrow> api_reply \<Rightarrow> exn + (pystr \<times> completion)" where
  "call_once efa streaming suppress_thinking reply =
     (case reply of
        Raises err \<Rightarrow> Inl err
      | Returns completion \<Rightarrow>
          (if streaming then
             (case completion of
                StreamCompletion chunks e \<Rightarrow>
                  (let m = process_streaming_response suppress_thinking chunks e
                   in if m \<noteq> [] then Inr (m, completion) else Inl no_valid_response)
              | FullCompletion c \<Rightarrow> Inl no_valid_response)
           else
             (case completion of
                FullCompletion None \<Rightarrow> Inl no_choices
              | FullCompletion (Some content) \<Rightarrow>
                  (let m = (if suppress_thinking \<and> content \<noteq> [] then efa content else content)
                   in if m \<noteq> [] then Inr (m, completion) else Inl no_valid_response)
              | StreamCompletion chunks e \<Rightarrow>
                  Inl (Exn (ascii ''AttributeError'') (ascii ''choices'')))))"

text \<open>
  \<open>for attempt in range(3)\<close> with its \<open>try\<close>/\<open>except\<close>: a successful attempt returns
  from the function; a failed one sleeps \<open>2 ** (attempt + 2)\<close> seconds and continues
  when \<open>attempt < 2\<close>, and breaks out of the loop otherwise. The handler is
  \<open>except Exception as err\<close> and reads the exception only to print it. The source
  writes this loop twice, once for each tier, with the same body.
\<close>

fun tier_loop :: "tier \<Rightarrow> (nat \<Rightarrow> exn + 'a) \<Rightarrow> nat list \<Rightarrow> 'a option \<times> event list" where
  "tier_loop t call [] = (None, [])"
| "tier_loop t call (attempt # rest) =
     (case call attempt of
        Inr r \<Rightarrow> (Some r, [Attempt t attempt])
      | Inl err \<Rightarrow>
          if attempt < 2 then
            (case tier_loop t call rest of
               (r, evs) \<Rightarrow> (r, Attempt t attempt # Sleep (2 ^ (attempt + 2)) # evs))
          else (None, [Attempt t attempt]))"

text \<open>
  \<open>search_with_retry\<close>: the primary loop, then the backup loop, then
  \<open>return None, None\<close>, which is \<open>None\<close> here. \<open>api t a\<close> is what the request of
  attempt \<open>a\<close> on tier \<open>t\<close> gives back.
\<close>

definition search_with_retry ::
  "(pystr \<Rightarrow> pystr) \<Rightarrow> (tier \<Rightarrow> nat \<Rightarrow> api_reply) \<Rightarrow> bool \<Rightarrow> bool
     \<Rightarrow> (pystr \<times> completion) option \<times> event list" where
  "search_with_retry efa api streaming suppress_thinking =
     (case tier_loop Primary
             (\<lambda>attempt. call_once efa streaming suppress_thinking (api Primary attempt)) [0..<3] of
        (Some r, evs) \<Rightarrow> (Some r, evs)
      | (None, evs) \<Rightarrow>
          (case tier_loop Backup
                  (\<lambda>attempt. call_once efa streaming suppress_thinking (api Backup attempt)) [0..<3] of
             (r, evs') \<Rightarrow> (r, evs @ evs')))"

text \<open>Whether the attempt that receives \<open>reply\<close> ends in the \<open>except\<close> handler.\<close>

definition attempt_fails :: "(pystr \<Rightarrow> pystr) \<Rightarrow> bool \<Rightarrow> bool \<Rightarrow> api_reply \<Rightarrow> bool" where
  "attempt_fails efa streaming suppress_thinking reply =
     isl (call_once efa streaming suppress_thinking reply)"

text \<open>The requests and the sleeps of a trace.\<close>

fun attempts_of :: "event list \<Rightarrow> (tier \<times> nat) list" where
  "attempts_of [] = []"
| "attempts_of (Attempt t a # evs) = (t, a) # attempts_of evs"
| "attempts_of (Sleep s # evs) = attempts_of evs"

fun sleeps_of :: "event list \<Rightarrow> nat list" where
  "sleeps_of [] = []"
| "sleeps_of (Attempt t a # evs) = sleeps_of evs"
| "sleeps_of (Sleep s # evs) = s # sleeps_of evs"

subsection \<open>\_handle\_api\_error\<close>

text \<open>
  \<open>str.lower\<close> on the ASCII letters. The only use is the test
  \<open>'overloaded' in error_msg.lower()\<close>, and no code point outside ASCII has a lower case
  that contains one of the letters of \<open>overloaded\<close>, so the test comes out the same.
\<close>

definition ascii_lower :: "pystr \<Rightarrow> pystr" where
  "ascii_lower text = map (\<lambda>c. if 65 \<le> c \<and> c \<le> 90 then c + 32 else c) text"

text \<open>
  The literals outside ASCII, as code points: \<open>saturated\<close> is the five-character Chinese
  phrase for "load is saturated"; the four messages read "switch to the backup API",
  "all API providers have load problems", "ordinary error, preparing to retry" and
  "reached the maximum number of retries: ".
\<close>

definition saturated :: pystr where
  "saturated = [36127, 36733, 24050, 39281, 21644]"

definition msg_switch_to_backup :: pystr where
  "msg_switch_to_backup = [20999, 25442, 21040, 22791, 29992, 65, 80, 73]"

definition msg_all_providers_loaded :: pystr where
  "msg_all_providers_loaded =
     [25152, 26377, 65, 80, 73, 25552, 20379, 21830, 37117, 36935, 21040, 36127, 36733,
      38382, 39064]"

definition msg_ordinary_retry :: pystr where
  "msg_ordinary_retry = [26222, 36890, 38169, 35823, 65292, 20934, 22791, 37325, 35797]"

definition msg_max_retries :: pystr where
  "msg_max_retries = [36798, 21040, 26368, 22823, 37325, 35797, 27425, 25968, 58, 32]"

definition is_rate_limit :: "exn \<Rightarrow> bool" where
  "is_rate_limit err =
     (py_in (ascii ''RateLimitError'') (error_type err) \<or> py_in saturated (error_msg err)
      \<or> py_in (ascii ''overloaded'') (ascii_lower (error_msg err)))"

definition handle_api_error :: "exn \<Rightarrow> nat \<Rightarrow> nat \<Rightarrow> bool \<times> pystr" where
  "handle_api_error err attempt max_retries =
     (if is_rate_limit err then
        (if attempt = 0 then (True, msg_switch_to_backup)
         else (False, msg_all_providers_loaded))
      else if attempt < max_retries then (True, msg_ordinary_retry)
      else (False, msg_max_retries @ error_msg err))"

section \<open>The dispatcher (parallel\_executor.py)\<close>

text \<open>
  \<open>ModelResult\<close>. The source keeps \<open>status\<close> as a string and documents its three
  values, \<open>"success"\<close>, \<open>"error"\<close> and \<open>"timeout"\<close>; every test on it is
  \<open>== "success"\<close> or \<open>!= "success"\<close>. Times are Python floats; they are modelled as
  real numbers, and no property below depends on rounding.
\<close>

datatype status = Success | Error | Timeout

record model_result =
  model_key :: pystr
  model_name :: pystr
  response :: pystr
  execution_time :: real
  status :: status
  error_message :: "pystr option"
  raw_completion :: "completion option"

text \<open>
  What \<open>_execute_single_model\<close> reads from the registry: whether
  \<open>get_model_class(key)\<close> finds a class (all classes inherit \<open>search_with_retry\<close>
  unchanged), and \<open>get_model_info(key)\<close>, a dictionary that may or may not have a
  \<open>"name"\<close> entry, or \<open>None\<close> for an unknown key.
\<close>

record registry =
  has_model_class :: "pystr \<Rightarrow> bool"
  get_model_info :: "pystr \<Rightarrow> pystr option option"

text \<open>
  \<open>model_key.replace("_", " ").title()\<close>. \<open>str.title\<close> is modelled on the ASCII
  letters (the registry's keys are ASCII identifiers): a letter that follows a letter is
  lower-cased, any other letter is upper-cased, and every other character is kept.
\<close>

definition is_ascii_letter :: "nat \<Rightarrow> bool" where
  "is_ascii_letter c = ((65 \<le> c \<and> c \<le> 90) \<or> (97 \<le> c \<and> c \<le> 122))"

fun title_from :: "bool \<Rightarrow> pystr \<Rightarrow> pystr" where
  "title_from previous_is_cased [] = []"
| "title_from previous_is_cased (c # cs) =
     (if previous_is_cased
      then (if 65 \<le> c \<and> c \<le> 90 then c + 32 else c)
      else (if 97 \<le> c \<and> c \<le> 122 then c - 32 else c))
     # title_from (is_ascii_letter c) cs"

definition fallback_name :: "pystr \<Rightarrow> pystr" where
  "fallback_name key = title_from False (map (\<lambda>c. if c = 95 then 32 else c) key)"

text \<open>
  The messages of the exceptions raised in \<open>_execute_single_model\<close>. The Chinese
  literals read "model <key> does not exist" and "the model returned an empty response".
\<close>

definition model_missing :: "pystr \<Rightarrow> exn" where
  "model_missing key =
     Exn (ascii ''ValueError'') ([27169, 22411, 32] @ key @ [32, 19981, 23384, 22312])"

definition empty_response :: exn where
  "empty_response = Exn (ascii ''ValueError'') [27169, 22411, 36820, 22238, 31354, 21709, 24212]"

definition none_has_no_get :: exn where
  "none_has_no_get =
     Exn (ascii ''AttributeError'') (ascii [CHR 0x27] @ ascii ''NoneType'' @ ascii [CHR 0x27]
       @ ascii '' object has no attribute '' @ ascii [CHR 0x27] @ ascii ''get'' @ ascii [CHR 0x27])"

text \<open>The result built by the handler \<open>except Exception as e\<close>.\<close>

definition error_result :: "pystr \<Rightarrow> real \<Rightarrow> exn \<Rightarrow> model_result" where
  "error_result key elapsed e =
     \<lparr>model_key = key, model_name = fallback_name key, response = [],
      execution_time = elapsed, status = Error, error_message = Some (error_msg e),
      raw_completion = None\<rparr>"

text \<open>
  \<open>_execute_single_model\<close>. \<open>api\<close> is what the requests of this model's call give
  back, and \<open>elapsed\<close> is the difference of the two clock readings,
  \<open>time.time() - start_time\<close>. Everything that can raise is inside the \<open>try\<close> block,
  so the function always returns a result.
\<close>

definition execute_single_model ::
  "(pystr \<Rightarrow> pystr) \<Rightarrow> registry \<Rightarrow> (tier \<Rightarrow> nat \<Rightarrow> api_reply) \<Rightarrow> real
     \<Rightarrow> pystr \<Rightarrow> bool \<Rightarrow> bool \<Rightarrow> model_result" where
  "execute_single_model efa reg api elapsed key suppress_thinking streaming =
     (if \<not> has_model_class reg key then error_result key elapsed (model_missing key)
      else
        (case get_model_info reg key of
           None \<Rightarrow> error_result key elapsed none_has_no_get
         | Some info \<Rightarrow>
             (let name = (case info of Some n \<Rightarrow> n | None \<Rightarrow> fallback_name key)
              in case fst (search_with_retry efa api streaming suppress_thinking) of
                   Some (resp, completion) \<Rightarrow>
                     (if resp \<noteq> [] then
                        \<lparr>model_key = key, model_name = name, response = resp,
                         execution_time = elapsed, status = Success, error_message = None,
                         raw_completion = Some completion\<rparr>
                      else error_result key elapsed empty_response)
                 | None \<Rightarrow> error_result key elapsed empty_response)))"

text \<open>
  \<open>execute_models\<close>. One future is submitted per key. \<open>finish key\<close> is the time,
  counted from the start of the batch, at which the future of \<open>key\<close> is done, and
  \<open>timeout\<close> is \<open>self.timeout\<close>. The library's \<open>as_completed(fs, timeout)\<close> yields
  the futures in the order in which they complete, and its iterator raises
  \<open>TimeoutError\<close> when the time is up and futures are still pending. The \<open>for\<close>
  statement that drives the iterator stands outside the \<open>try\<close> block of the loop body,
  so that exception leaves \<open>execute_models\<close>. Inside the loop body
  \<open>future.result()\<close> returns the task's result: \<open>_execute_single_model\<close> catches every
  exception of its own, so neither handler of the loop body is ever entered.
\<close>

definition batch_timeout :: exn where
  "batch_timeout = Exn (ascii ''TimeoutError'') (ascii ''futures unfinished'')"

definition execute_models ::
  "(pystr \<Rightarrow> pystr) \<Rightarrow> registry \<Rightarrow> (pystr \<Rightarrow> tier \<Rightarrow> nat \<Rightarrow> api_reply)
     \<Rightarrow> (pystr \<Rightarrow> real) \<Rightarrow> (pystr \<Rightarrow> real) \<Rightarrow> real
     \<Rightarrow> pystr list \<Rightarrow> bool \<Rightarrow> bool \<Rightarrow> exn + model_result list" where
  "execute_models efa reg api elapsed finish timeout model_keys suppress_thinking streaming =
     (let completed = sort_key finish (filter (\<lambda>k. finish k \<le> timeout) model_keys);
          results = map (\<lambda>k. execute_single_model efa reg (api k) (elapsed k) k
                                 suppress_thinking streaming) completed
      in if list_all (\<lambda>k. finish k \<le> timeout) model_keys then Inr results
         else Inl batch_timeout)"

subsection \<open>get\_execution\_summary\<close>

text \<open>
  Division and the minimum and maximum of a sequence, with the exceptions Python raises:
  \<open>ZeroDivisionError\<close> for a zero divisor, \<open>ValueError\<close> for an empty sequence.
\<close>

definition zero_division :: exn where
  "zero_division = Exn (ascii ''ZeroDivisionError'') (ascii ''division by zero'')"

definition empty_sequence :: exn where
  "empty_sequence = Exn (ascii ''ValueError'') (ascii ''arg is an empty sequence'')"

definition py_div :: "real \<Rightarrow> real \<Rightarrow> exn + real" where
  "py_div a b = (if b = 0 then Inl zero_division else Inr (a / b))"

fun py_min :: "real list \<Rightarrow> exn + real" where
  "py_min [] = Inl empty_sequence"
| "py_min (x # xs) = Inr (fold min xs x)"

fun py_max :: "real list \<Rightarrow> exn + real" where
  "py_max [] = Inl empty_sequence"
| "py_max (x # xs) = Inr (fold max xs x)"

text \<open>Sequencing of steps that may raise.\<close>

definition and_then :: "exn + 'a \<Rightarrow> ('a \<Rightarrow> exn + 'b) \<Rightarrow> exn + 'b" where
  "and_then r f = (case r of Inl e \<Rightarrow> Inl e | Inr v \<Rightarrow> f v)"

record execution_summary =
  total_models :: nat
  successful :: nat
  failed :: nat
  success_rate :: real
  average_time :: real
  min_time :: real
  max_time :: real

definition get_successful_results :: "model_result list \<Rightarrow> model_result list" where
  "get_successful_results results = filter (\<lambda>r. status r = Success) results"

definition get_failed_results :: "model_result list \<Rightarrow> model_result list" where
  "get_failed_results results = filter (\<lambda>r. status r \<noteq> Success) results"

text \<open>\<open>get_execution_summary\<close>, on the list \<open>self.results\<close>.\<close>

definition get_execution_summary :: "model_result list \<Rightarrow> exn + execution_summary" where
  "get_execution_summary results =
     (let total = length results;
          n_successful = length (get_successful_results results);
          n_failed = length (get_failed_results results);
          times = map execution_time (get_successful_results results)
      in and_then
           (if n_successful > 0 then
              and_then (py_div (sum_list times) (real n_successful)) (\<lambda>avg_time.
              and_then (py_min times) (\<lambda>min_t.
              and_then (py_max times) (\<lambda>max_t. Inr (avg_time, min_t, max_t))))
            else Inr (0, 0, 0))
           (\<lambda>(avg_time, min_t, max_t).
              and_then (if total > 0 then py_div (real n_successful) (real total) else Inr 0)
                (\<lambda>rate. Inr \<lparr>total_models = total, successful = n_successful,
                               failed = n_failed, success_rate = rate,
                               average_time = avg_time, min_time = min_t,
                               max_time = max_t\<rparr>)))"

section \<open>The aggregator (report\_aggregator.py)\<close>

subsection \<open>\_calculate\_execution\_summary\<close>

text \<open>The dictionary returned by \<open>_calculate_execution_summary\<close>.\<close>

record summary_stats =
  stat_total_time :: real
  stat_average_time :: real
  stat_min_time :: real
  stat_max_time :: real
  stat_success_rate :: real

definition calculate_execution_summary :: "model_result list \<Rightarrow> exn + summary_stats" where
  "calculate_execution_summary results =
     (let successful_results = filter (\<lambda>r. status r = Success) results
      in if successful_results = [] then
           Inr \<lparr>stat_total_time = 0, stat_average_time = 0, stat_min_time = 0,
                stat_max_time = 0, stat_success_rate = 0\<rparr>
         else
           (let times = map execution_time successful_results;
                total_time = sum_list times
            in and_then (py_div total_time (real (length successful_results))) (\<lambda>avg_time.
               and_then (py_min times) (\<lambda>min_t.
               and_then (py_max times) (\<lambda>max_t.
               and_then (py_div (real (length successful_results)) (real (length results)))
                 (\<lambda>rate.
                    Inr \<lparr>stat_total_time = total_time, stat_average_time = avg_time,
                         stat_min_time = min_t, stat_max_time = max_t,
                         stat_success_rate = rate\<rparr>))))))"

subsection \<open>\_strip\_think\<close>

text \<open>
  Matching under \<open>re.IGNORECASE\<close>: a character of the pattern \<open><think>\<close> or
  \<open></think>\<close> matches itself, its upper case, and, for \<open>i\<close>, the dotted capital and
  the dotless small I (U+0130, U+0131) and, for \<open>k\<close>, the Kelvin sign (U+212A).
\<close>

definition ci_eq :: "nat \<Rightarrow> nat \<Rightarrow> bool" where
  "ci_eq p c =
     (c = p \<or> (97 \<le> p \<and> p \<le> 122 \<and> c + 32 = p) \<or> (p = 105 \<and> (c = 304 \<or> c = 305))
      \<or> (p = 107 \<and> c = 8490))"

definition ci_prefix :: "pystr \<Rightarrow> pystr \<Rightarrow> bool" where
  "ci_prefix pat text =
     (length pat \<le> length text \<and> list_all2 ci_eq pat (take (length pat) text))"

fun ci_find :: "pystr \<Rightarrow> pystr \<Rightarrow> nat option" where
  "ci_find pat [] = (if pat = [] then Some 0 else None)"
| "ci_find pat (c # cs) =
     (if ci_prefix pat (c # cs) then Some 0 else map_option Suc (ci_find pat cs))"

text \<open>
  \<open>re.sub(r"<think>[\s\S]*?</think>", "", text, flags=re.IGNORECASE)\<close>: scanning from
  the left, a match starts at an opening marker that has a closing marker after it and,
  the quantifier being lazy, ends with the nearest one; the match is deleted and the scan
  goes on behind it.
\<close>

function re_sub_think :: "pystr \<Rightarrow> pystr" where
  "re_sub_think [] = []"
| "re_sub_think (c # cs) =
     (if ci_prefix think_open (c # cs) then
        (case ci_find think_close (drop (length think_open) (c # cs)) of
           Some j \<Rightarrow>
             re_sub_think (drop (length think_open + j + length think_close) (c # cs))
         | None \<Rightarrow> c # re_sub_think cs)
      else c # re_sub_think cs)"
  by pat_completeness auto
termination
  by (relation "measure length") (auto simp: think_open_eq)

text \<open>\<open>text.replace(old, "")\<close>.\<close>

function remove_all :: "pystr \<Rightarrow> pystr \<Rightarrow> pystr" where
  "remove_all old [] = []"
| "remove_all old (c # cs) =
     (if old \<noteq> [] \<and> prefix old (c # cs) then remove_all old (drop (length old) (c # cs))
      else c # remove_all old cs)"
  by pat_completeness auto
termination
  by (relation "measure (\<lambda>(old, text). length text)") auto

definition strip_think :: "pystr \<Rightarrow> pystr" where
  "strip_think text =
     (if text = [] then text
      else remove_all think_close (remove_all think_open (re_sub_think text)))"

subsection \<open>aggregate\_results\<close>

text \<open>One entry of \<open>model_responses\<close>.\<close>

record response_info =
  ri_model_key :: pystr
  ri_model_name :: pystr
  ri_status :: status
  ri_execution_time :: real
  ri_response :: "pystr option"
  ri_response_length :: nat

definition response_info_of :: "model_result \<Rightarrow> response_info" where
  "response_info_of result =
     \<lparr>ri_model_key = model_key result,
      ri_model_name = model_name result,
      ri_status = status result,
      ri_execution_time = execution_time result,
      ri_response = (if status result = Success then Some (strip_think (response result))
                     else error_message result),
      ri_response_length = (if status result = Success
                            then length (strip_think (response result)) else 0)\<rparr>"

text \<open>\<open>str(n)\<close> for a natural number \<open>n\<close>, as it appears in an f-string.\<close>

fun py_str_nat :: "nat \<Rightarrow> pystr" where
  "py_str_nat n = (if n < 10 then [48 + n] else py_str_nat (n div 10) @ [48 + n mod 10])"

text \<open>
  \<open>sorted(xs, key=..., reverse=True)\<close>: descending, and elements with equal keys keep
  their order.
\<close>

definition sorted_reverse :: "('a \<Rightarrow> nat) \<Rightarrow> 'a list \<Rightarrow> 'a list" where
  "sorted_reverse key xs = rev (sort_key key (rev xs))"

text \<open>
  \<open>_generate_summary_text\<close>. The format \<open>:.2f\<close> of a float is the parameter
  \<open>fmt2f\<close>. The literals are Chinese text with emoji and are written as code points:
  \<open>lit_failed\<close> reads "query failed: no model could give a valid answer" and, after a
  blank line, "query:"; the others are the header "query summary report", the labels
  "query:", "statistics:", "models succeeded", "average time:", "seconds", a robot
  emoji, "time taken:" and "answer:". Subscripting the response of a successful
  entry raises \<open>TypeError\<close> if it is \<open>None\<close>.
\<close>

definition lit_failed :: pystr where
  "lit_failed =
     [10060, 32, 26597, 35810, 22833, 36133, 65306, 25152, 26377, 27169, 22411, 37117, 26080,
      27861, 25552, 20379, 26377, 25928, 22238, 31572, 10, 10, 26597, 35810, 20869, 23481,
      65306]"

definition lit_header :: pystr where
  "lit_header = [128203, 32, 26597, 35810, 27719, 24635, 25253, 21578, 10]"

definition lit_query :: pystr where
  "lit_query = [128269, 32, 26597, 35810, 20869, 23481, 65306]"

definition lit_stats :: pystr where
  "lit_stats = [128202, 32, 25191, 34892, 32479, 35745, 65306]"

definition lit_succeeded :: pystr where
  "lit_succeeded = [32, 20010, 27169, 22411, 25104, 21151, 10]"

definition lit_average :: pystr where
  "lit_average = [9201, 65039, 32, 32, 24179, 22343, 32791, 26102, 65306]"

definition lit_seconds :: pystr where
  "lit_seconds = [31186]"

definition lit_robot :: pystr where
  "lit_robot = [129302, 32]"

definition lit_time :: pystr where
  "lit_time = [32, 32, 32, 9201, 65039, 32, 32, 32791, 26102, 65306]"

definition lit_answer :: pystr where
  "lit_answer = [32, 32, 32, 128221, 32, 22238, 31572, 65306]"

definition none_not_subscriptable :: exn where
  "none_not_subscriptable = Exn (ascii ''TypeError'') (ascii ''NoneType is not subscriptable'')"

text \<open>The lines that the loop adds for entry number \<open>i\<close>.\<close>

definition summary_entry :: "(real \<Rightarrow> pystr) \<Rightarrow> nat \<Rightarrow> response_info \<Rightarrow> exn + pystr" where
  "summary_entry fmt2f i r =
     (case ri_response r of
        None \<Rightarrow> Inl none_not_subscriptable
      | Some text \<Rightarrow>
          Inr (lit_robot @ py_str_nat i @ ascii ''. '' @ ri_model_name r @ [10]
               @ lit_time @ fmt2f (ri_execution_time r) @ lit_seconds @ [10]
               @ lit_answer @ take 200 text
               @ (if length text > 200 then ascii ''...'' else [])
               @ [10, 10]))"

fun summary_entries ::
  "(real \<Rightarrow> pystr) \<Rightarrow> nat \<Rightarrow> response_info list \<Rightarrow> exn + pystr" where
  "summary_entries fmt2f i [] = Inr []"
| "summary_entries fmt2f i (r # rs) =
     and_then (summary_entry fmt2f i r) (\<lambda>lines.
     and_then (summary_entries fmt2f (i + 1) rs) (\<lambda>more. Inr (lines @ more)))"

definition generate_summary_text ::
  "(real \<Rightarrow> pystr) \<Rightarrow> pystr \<Rightarrow> response_info list \<Rightarrow> summary_stats \<Rightarrow> exn + pystr" where
  "generate_summary_text fmt2f query model_responses execution_summary =
     (let successful_responses = filter (\<lambda>r. ri_status r = Success) model_responses
      in if successful_responses = [] then Inr (lit_failed @ query)
         else
           (let summary = lit_header
                  @ lit_query @ query @ [10]
                  @ lit_stats @ py_str_nat (length successful_responses) @ ascii ''/''
                    @ py_str_nat (length model_responses) @ lit_succeeded
                  @ lit_average @ fmt2f (stat_average_time execution_summary)
                    @ lit_seconds @ [10, 10];
                sorted_responses = sorted_reverse ri_response_length successful_responses
            in and_then (summary_entries fmt2f 1 sorted_responses)
                 (\<lambda>entries. Inr (summary @ entries))))"

text \<open>\<open>AggregatedReport\<close>.\<close>

record aggregated_report =
  query :: pystr
  timestamp :: pystr
  report_total_models :: nat
  successful_models :: nat
  failed_models :: nat
  report_execution_summary :: summary_stats
  model_responses :: "response_info list"
  summary_text :: pystr

text \<open>
  \<open>aggregate_results\<close>. \<open>now\<close> is what \<open>time.strftime("%Y-%m-%d %H:%M:%S")\<close>
  returns when the report is built: the local time of the call, to the second. The
  parameter \<open>format_type\<close> is not used by the source.
\<close>

definition aggregate_results ::
  "(real \<Rightarrow> pystr) \<Rightarrow> pystr \<Rightarrow> pystr \<Rightarrow> model_result list \<Rightarrow> exn + aggregated_report" where
  "aggregate_results fmt2f now q results =
     (let total = length results;
          n_successful = length (filter (\<lambda>r. status r = Success) results);
          n_failed = length (filter (\<lambda>r. status r \<noteq> Success) results)
      in and_then (calculate_execution_summary results) (\<lambda>execution_summary.
           (let responses = map response_info_of results
            in and_then (generate_summary_text fmt2f q responses execution_summary)
                 (\<lambda>text.
                    Inr \<lparr>query = q, timestamp = now, report_total_models = total,
                         successful_models = n_successful, failed_models = n_failed,
                         report_execution_summary = execution_summary,
                         model_responses = responses, summary_text = text\<rparr>))))"

section \<open>What the classifier is to compute\<close>

text \<open>
  The reference against which the classifier is checked, written from the specification
  and not from the code: the text is read from the left, one character at a time. Where
  an opening marker stands, it is removed and a thinking region begins; where a closing
  marker stands, it is removed and the region ends; every other character is kept and
  tagged with the region it stands in (\<open>True\<close> for thinking). \<open>ref_classify th text\<close>
  starts inside a thinking region when \<open>th\<close> holds.
\<close>

function ref_classify :: "bool \<Rightarrow> pystr \<Rightarrow> (bool \<times> nat) list" where
  "ref_classify th [] = []"
| "ref_classify th (c # cs) =
     (if prefix think_open (c # cs)
        then ref_classify True (drop (length think_open) (c # cs))
      else if prefix think_close (c # cs)
        then ref_classify False (drop (length think_close) (c # cs))
      else (th, c) # ref_classify th cs)"
  by pat_completeness auto
termination
  by (relation "measure (\<lambda>(th, text). length text)") (auto simp: think_open_eq think_close_eq)

text \<open>Whether the end of the text lies inside a thinking region.\<close>

function ref_flag :: "bool \<Rightarrow> pystr \<Rightarrow> bool" where
  "ref_flag th [] = th"
| "ref_flag th (c # cs) =
     (if prefix think_open (c # cs) then ref_flag True (drop (length think_open) (c # cs))
      else if prefix think_close (c # cs)
        then ref_flag False (drop (length think_close) (c # cs))
      else ref_flag th cs)"
  by pat_completeness auto
termination
  by (relation "measure (\<lambda>(th, text). length text)") (auto simp: think_open_eq think_close_eq)

text \<open>The markers of a text, in the order in which they stand.\<close>

function ref_markers :: "pystr \<Rightarrow> pystr" where
  "ref_markers [] = []"
| "ref_markers (c # cs) =
     (if prefix think_open (c # cs)
        then think_open @ ref_markers (drop (length think_open) (c # cs))
      else if prefix think_close (c # cs)
        then think_close @ ref_markers (drop (length think_close) (c # cs))
      else ref_markers cs)"
  by pat_completeness auto
termination
  by (relation "measure length") (auto simp: think_open_eq think_close_eq)

text \<open>
  The non-thinking portion of a text, its thinking portion, and the text with its markers
  removed.
\<close>

definition ref_answer :: "pystr \<Rightarrow> pystr" where
  "ref_answer text = map snd (filter (\<lambda>(th, c). \<not> th) (ref_classify False text))"

definition ref_thinking :: "pystr \<Rightarrow> pystr" where
  "ref_thinking text = map snd (filter (\<lambda>(th, c). th) (ref_classify False text))"

definition ref_unmarked :: "pystr \<Rightarrow> pystr" where
  "ref_unmarked text = map snd (ref_classify False text)"

text \<open>
  The characters of a classified text that reach \<open>final_content\<close>: all of them, or only
  those outside thinking regions when thinking is suppressed.
\<close>

definition kept :: "bool \<Rightarrow> (bool \<times> nat) list \<Rightarrow> pystr" where
  "kept suppress_thinking tagged =
     map snd (filter (\<lambda>(th, c). \<not> (th \<and> suppress_thinking)) tagged)"

text \<open>
  The same reading applied to one fragment after the other, the region carried over from
  fragment to fragment but every fragment read on its own.
\<close>

fun classify_fragments :: "bool \<Rightarrow> pystr list \<Rightarrow> (bool \<times> nat) list" where
  "classify_fragments th [] = []"
| "classify_fragments th (raw # raws) =
     ref_classify th raw @ classify_fragments (ref_flag th raw) raws"

text \<open>
  No marker of \<open>a @ b\<close> begins in \<open>a\<close> and ends in \<open>b\<close>; and no marker of the
  concatenated fragments lies across a boundary between fragments.
\<close>

fun no_straddle :: "pystr \<Rightarrow> pystr \<Rightarrow> bool" where
  "no_straddle [] b = True"
| "no_straddle (c # cs) b =
     ((prefix think_open (c # cs @ b) \<longrightarrow> prefix think_open (c # cs))
      \<and> (prefix think_close (c # cs @ b) \<longrightarrow> prefix think_close (c # cs))
      \<and> no_straddle cs b)"

fun markers_whole :: "pystr list \<Rightarrow> bool" where
  "markers_whole [] = True"
| "markers_whole (raw # raws) = (no_straddle raw (concat raws) \<and> markers_whole raws)"

section \<open>Inputs of the examples\<close>

text \<open>
  The concrete inputs on which the theorems below are evaluated: an exception that
  \<open>_handle_api_error\<close> classifies as a rate limit, and a call whose first primary
  request raises it while every later request streams \<open>ok\<close>; a registry that knows
  every key; a successful result; and three streams with thinking markup.
\<close>

definition rate_limit_error :: exn where
  "rate_limit_error = Exn (ascii ''RateLimitError'') (ascii ''Rate limit reached'')"

definition first_rate_limited :: "tier \<Rightarrow> nat \<Rightarrow> api_reply" where
  "first_rate_limited t a =
     (if t = Primary \<and> a = 0 then Raises rate_limit_error
      else Returns (StreamCompletion [Delta (ascii ''ok'')] EndOfStream))"

definition known_registry :: registry where
  "known_registry = \<lparr>has_model_class = (\<lambda>k. True), get_model_info = (\<lambda>k. Some None)\<rparr>"

definition paris_result :: model_result where
  "paris_result =
     \<lparr>model_key = ascii ''gpt_search'', model_name = ascii ''GPT Search'',
      response = ascii ''Paris'', execution_time = 2, status = Success,
      error_message = None, raw_completion = None\<rparr>"

definition whole_marker_stream :: "chunk list" where
  "whole_marker_stream =
     [Delta (ascii ''Hi <think>''), Delta (ascii ''hm</think> the''), NoText,
      Content (ascii '' answer'')]"



section \<open>Properties of the retry controller\<close>

lemma range3: "[0..<3] = [0, Suc 0, 2]"
  by (simp add: upt_rec)

text \<open>The loop over \<open>range(3)\<close>, unrolled.\<close>

lemma tier_loop_range3:
  "tier_loop t call [0..<3] =
     (case call 0 of
        Inr r \<Rightarrow> (Some r, [Attempt t 0])
      | Inl e0 \<Rightarrow>
         (case call 1 of
            Inr r \<Rightarrow> (Some r, [Attempt t 0, Sleep 4, Attempt t 1])
          | Inl e1 \<Rightarrow>
             (case call 2 of
                Inr r \<Rightarrow> (Some r, [Attempt t 0, Sleep 4, Attempt t 1, Sleep 8, Attempt t 2])
              | Inl e2 \<Rightarrow> (None, [Attempt t 0, Sleep 4, Attempt t 1, Sleep 8, Attempt t 2]))))"
  by (simp add: range3 split: sum.splits)

lemmas stream_eval =
  process_streaming_response_def run_stream_def process_chunk_def initial_state_def
  scan_step_def think_open_def think_close_def ascii_def Let_def

subsection \<open>C3: no rate-limit fast path\<close>

text \<open>
  Claim C3 as stated fails. The first primary attempt raises a \<open>RateLimitError\<close>, which
  \<open>_handle_api_error\<close> would answer with "switch to the backup API"; the controller
  never calls \<open>_handle_api_error\<close>: it sleeps 4 seconds, makes the second primary
  attempt and returns its text. The backup tier is never tried.
\<close>

theorem fast_path_counterexample:
  "is_rate_limit rate_limit_error \<and>
   handle_api_error rate_limit_error 0 3 = (True, msg_switch_to_backup) \<and>
   search_with_retry id first_rate_limited True True =
     (Some (ascii ''ok'', StreamCompletion [Delta (ascii ''ok'')] EndOfStream),
      [Attempt Primary 0, Sleep 4, Attempt Primary 1])"
  by (simp add: is_rate_limit_def handle_api_error_def rate_limit_error_def py_in_def
      search_with_retry_def tier_loop_range3 first_rate_limited_def call_once_def stream_eval)

text \<open>
  Claim C3, amended: the requests a call makes are determined by which attempts fail,
  never by the kind of failure. A failed attempt, the first primary attempt included and
  a rate-limited one included, is followed by the next attempt on the same tier; the
  backup tier is tried only after three failed primary attempts, and no transition skips
  attempts.
\<close>

theorem requests_follow_failures_only:
  fixes efa api streaming suppress_thinking
  shows "attempts_of (snd (search_with_retry efa api streaming suppress_thinking)) =
     (if \<not> attempt_fails efa streaming suppress_thinking (api Primary 0) then [(Primary, 0)]
      else if \<not> attempt_fails efa streaming suppress_thinking (api Primary 1)
        then [(Primary, 0), (Primary, 1)]
      else if \<not> attempt_fails efa streaming suppress_thinking (api Primary 2)
        then [(Primary, 0), (Primary, 1), (Primary, 2)]
      else if \<not> attempt_fails efa streaming suppress_thinking (api Backup 0)
        then [(Primary, 0), (Primary, 1), (Primary, 2), (Backup, 0)]
      else if \<not> attempt_fails efa streaming suppress_thinking (api Backup 1)
        then [(Primary, 0), (Primary, 1), (Primary, 2), (Backup, 0), (Backup, 1)]
      else [(Primary, 0), (Primary, 1), (Primary, 2), (Backup, 0), (Backup, 1), (Backup, 2)])"
  by (simp add: search_with_retry_def tier_loop_range3 attempt_fails_def split: sum.splits)

subsection \<open>C4: attempt budget and the null result\<close>

text \<open>
  Claim C4: when every attempt fails, whatever the failures are, the call makes exactly
  three requests to the primary tier, then exactly three to the backup tier, and returns
  \<open>(None, None)\<close>: a value, not an exception.
\<close>

theorem attempt_budget_null_result:
  assumes "\<forall>t. \<forall>a<3. attempt_fails efa streaming suppress_thinking (api t a)"
  shows "fst (search_with_retry efa api streaming suppress_thinking) = None \<and>
         attempts_of (snd (search_with_retry efa api streaming suppress_thinking)) =
           [(Primary, 0), (Primary, 1), (Primary, 2), (Backup, 0), (Backup, 1), (Backup, 2)]"
proof -
  have "isl (call_once efa streaming suppress_thinking (api t a))" if "a < 3" for t a
    using assms that by (simp add: attempt_fails_def)
  then have f: "isl (call_once efa streaming suppress_thinking (api t 0))"
      "isl (call_once efa streaming suppress_thinking (api t 1))"
      "isl (call_once efa streaming suppress_thinking (api t 2))" for t
    by simp_all
  show ?thesis
    using f [of Primary] f [of Backup]
    by (auto simp: search_with_retry_def tier_loop_range3 isl_def)
qed

text \<open>
  The witness: a non-streaming call whose six replies all come back without choices.
\<close>

theorem attempt_budget_null_result_witness:
  "fst (search_with_retry id (\<lambda>t a. Returns (FullCompletion None)) False True) = None \<and>
   attempts_of (snd (search_with_retry id (\<lambda>t a. Returns (FullCompletion None)) False True)) =
     [(Primary, 0), (Primary, 1), (Primary, 2), (Backup, 0), (Backup, 1), (Backup, 2)]"
proof -
  have h: "\<forall>t. \<forall>a<3. attempt_fails id False True ((\<lambda>t a. Returns (FullCompletion None)) t a)"
    by (simp add: attempt_fails_def call_once_def)
  from attempt_budget_null_result [OF h] show ?thesis .
qed

subsection \<open>C5: the backoff schedule\<close>

text \<open>
  Claim C5 as stated fails: with every attempt failing, the sleeps are 4 and 8 seconds
  in each tier, not 8 and 16. The loop variable \<open>attempt\<close> counts from 0.
\<close>

theorem backoff_counterexample:
  "sleeps_of (snd (search_with_retry id (\<lambda>t a. Raises no_choices) True True)) = [4, 8, 4, 8]
   \<and> sleeps_of (snd (search_with_retry id (\<lambda>t a. Raises no_choices) True True))
       \<noteq> [8, 16, 8, 16]"
  by (simp add: search_with_retry_def tier_loop_range3 call_once_def)

text \<open>
  Claim C5, amended: within each tier the controller sleeps after a failed attempt that
  is not the tier's last, for \<open>2 ^ (attempt + 2)\<close> seconds where \<open>attempt\<close> is the
  0-based index of the attempt that failed: 4 seconds before the second attempt and 8
  seconds before the third. It never sleeps after a tier's third attempt, after a
  success, or between the tiers.
\<close>

theorem backoff_schedule:
  fixes efa api streaming suppress_thinking
  shows "snd (search_with_retry efa api streaming suppress_thinking) =
     (if \<not> attempt_fails efa streaming suppress_thinking (api Primary 0)
        then [Attempt Primary 0]
      else if \<not> attempt_fails efa streaming suppress_thinking (api Primary 1)
        then [Attempt Primary 0, Sleep (2 ^ (0 + 2)), Attempt Primary 1]
      else [Attempt Primary 0, Sleep (2 ^ (0 + 2)), Attempt Primary 1, Sleep (2 ^ (1 + 2)),
            Attempt Primary 2] @
        (if \<not> attempt_fails efa streaming suppress_thinking (api Primary 2) then []
         else if \<not> attempt_fails efa streaming suppress_thinking (api Backup 0)
           then [Attempt Backup 0]
         else if \<not> attempt_fails efa streaming suppress_thinking (api Backup 1)
           then [Attempt Backup 0, Sleep (2 ^ (0 + 2)), Attempt Backup 1]
         else [Attempt Backup 0, Sleep (2 ^ (0 + 2)), Attempt Backup 1, Sleep (2 ^ (1 + 2)),
               Attempt Backup 2]))
     \<and> (2::nat) ^ (0 + 2) = 4 \<and> (2::nat) ^ (1 + 2) = 8"
  by (simp add: search_with_retry_def tier_loop_range3 attempt_fails_def split: sum.splits)

section \<open>Properties of the dispatcher\<close>

subsection \<open>C2: a batch that runs into the global timeout\<close>

text \<open>
  Claim C2 does not hold of the code: a batch of one key whose task is still running
  when the 300 seconds are over (here it ends after 924 seconds, six requests that each
  time out after 150 seconds and the sleeps between them) does not return a list with a
  \<open>timeout\<close> result; the \<open>TimeoutError\<close> of \<open>as_completed\<close> leaves
  \<open>execute_models\<close>.
\<close>

theorem timeout_escapes_dispatcher:
  "execute_models id known_registry (\<lambda>k t a. Raises no_valid_response) (\<lambda>k. 924) (\<lambda>k. 924) 300
     [ascii ''gpt_search''] True True = Inl batch_timeout"
  by (simp add: execute_models_def)

text \<open>
  When every task is done in time, the call returns one result per key, in the order of
  completion.
\<close>

lemma execute_single_model_key:
  "model_key (execute_single_model efa reg api elapsed key s st) = key"
  by (simp add: execute_single_model_def error_result_def Let_def split: option.splits)

lemma execute_models_all_finished:
  assumes "\<forall>k \<in> set model_keys. finish k \<le> timeout"
  shows "\<exists>results. execute_models efa reg api elapsed finish timeout model_keys s st = Inr results
           \<and> map model_key results = sort_key finish model_keys"
proof -
  have "filter (\<lambda>k. finish k \<le> timeout) model_keys = model_keys"
    using assms by (simp add: filter_id_conv)
  then show ?thesis
    using assms
    by (simp add: execute_models_def list_all_iff execute_single_model_key comp_def Let_def)
qed

subsection \<open>C6: an empty text is an error\<close>

text \<open>
  Claim C6: a task is recorded with \<open>status = success\<close> only when the controller
  returned a non-empty text, and the result carries that text. When the controller
  returns \<open>(None, None)\<close> or an empty text, the result has \<open>status = error\<close>, an empty
  response and an error message; for a key the registry knows, the message is that of
  the \<open>ValueError\<close> "the model returned an empty response".
\<close>

theorem empty_text_is_error:
  fixes efa reg api elapsed key suppress_thinking streaming
  shows
    "(status (execute_single_model efa reg api elapsed key suppress_thinking streaming) = Success
        \<longrightarrow> response (execute_single_model efa reg api elapsed key suppress_thinking streaming) \<noteq> []
          \<and> (\<exists>c. fst (search_with_retry efa api streaming suppress_thinking)
                  = Some (response (execute_single_model efa reg api elapsed key
                                      suppress_thinking streaming), c)))
     \<and> ((fst (search_with_retry efa api streaming suppress_thinking) = None
          \<or> (\<exists>c. fst (search_with_retry efa api streaming suppress_thinking) = Some ([], c)))
        \<longrightarrow> status (execute_single_model efa reg api elapsed key suppress_thinking streaming) = Error
          \<and> response (execute_single_model efa reg api elapsed key suppress_thinking streaming) = []
          \<and> error_message (execute_single_model efa reg api elapsed key suppress_thinking
                             streaming) \<noteq> None
          \<and> (has_model_class reg key \<and> get_model_info reg key \<noteq> None \<longrightarrow>
               error_message (execute_single_model efa reg api elapsed key suppress_thinking
                                streaming) = Some (error_msg empty_response)))"
  by (auto simp: execute_single_model_def error_result_def Let_def split: option.splits)

text \<open>
  The witness: a known model whose six replies have no choices ends as an error with the
  "empty response" message, and one that answers \<open>Paris\<close> ends as a success.
\<close>

theorem empty_text_is_error_witness:
  "status (execute_single_model id known_registry (\<lambda>t a. Returns (FullCompletion None)) 2
             (ascii ''gpt_search'') True False) = Error
   \<and> error_message (execute_single_model id known_registry (\<lambda>t a. Returns (FullCompletion None)) 2
             (ascii ''gpt_search'') True False) = Some (error_msg empty_response)
   \<and> status (execute_single_model id known_registry
               (\<lambda>t a. Returns (FullCompletion (Some (ascii ''Paris'')))) 2
               (ascii ''gpt_search'') False False) = Success
   \<and> response (execute_single_model id known_registry
               (\<lambda>t a. Returns (FullCompletion (Some (ascii ''Paris'')))) 2
               (ascii ''gpt_search'') False False) \<noteq> []"
proof -
  have none: "fst (search_with_retry id (\<lambda>t a. Returns (FullCompletion None)) False True) = None"
    by (simp add: search_with_retry_def tier_loop_range3 call_once_def no_choices_def)
  have ok: "status (execute_single_model id known_registry
               (\<lambda>t a. Returns (FullCompletion (Some (ascii ''Paris'')))) 2
               (ascii ''gpt_search'') False False) = Success"
    by (simp add: execute_single_model_def known_registry_def search_with_retry_def
        tier_loop_range3 call_once_def ascii_def Let_def)
  have reg: "has_model_class known_registry (ascii ''gpt_search'')
      \<and> get_model_info known_registry (ascii ''gpt_search'') \<noteq> None"
    by (simp add: known_registry_def)
  show ?thesis
    using empty_text_is_error [of id known_registry "\<lambda>t a. Returns (FullCompletion None)" 2
        "ascii ''gpt_search''" True False]
      empty_text_is_error [of id known_registry
        "\<lambda>t a. Returns (FullCompletion (Some (ascii ''Paris'')))" 2 "ascii ''gpt_search''"
        False False]
      none ok reg
    by simp
qed

section \<open>Properties of the summaries and of the aggregator\<close>

declare py_str_nat.simps [simp del]

lemma py_min_Cons: "xs \<noteq> [] \<Longrightarrow> \<exists>m. py_min xs = Inr m"
  by (cases xs) auto

lemma py_max_Cons: "xs \<noteq> [] \<Longrightarrow> \<exists>m. py_max xs = Inr m"
  by (cases xs) auto

subsection \<open>C10: the summaries never divide by zero\<close>

text \<open>
  Claim C10: \<open>get_execution_summary\<close> always returns a summary, never a
  \<open>ZeroDivisionError\<close> (nor the \<open>ValueError\<close> of \<open>min\<close> and \<open>max\<close> on an empty
  sequence). For an empty result list the success rate is 0, and whenever no result is
  a success the average, minimum and maximum time are 0. The aggregator's
  \<open>_calculate_execution_summary\<close> has the same guard: it always returns, with every
  statistic 0 when there is no success.
\<close>

theorem execution_summary_total:
  "(\<exists>s. get_execution_summary results = Inr s
        \<and> (results = [] \<longrightarrow> success_rate s = 0)
        \<and> (get_successful_results results = []
             \<longrightarrow> average_time s = 0 \<and> min_time s = 0 \<and> max_time s = 0))
   \<and> (\<exists>s. calculate_execution_summary results = Inr s
        \<and> (filter (\<lambda>r. status r = Success) results = []
             \<longrightarrow> stat_average_time s = 0 \<and> stat_min_time s = 0 \<and> stat_max_time s = 0
               \<and> stat_total_time s = 0 \<and> stat_success_rate s = 0))"
proof (intro conjI)
  let ?succ = "filter (\<lambda>r. status r = Success) results"
  show "\<exists>s. get_execution_summary results = Inr s
        \<and> (results = [] \<longrightarrow> success_rate s = 0)
        \<and> (get_successful_results results = []
             \<longrightarrow> average_time s = 0 \<and> min_time s = 0 \<and> max_time s = 0)"
  proof (cases "?succ = []")
    case True
    then show ?thesis
      by (cases "results = []")
         (simp_all add: get_execution_summary_def get_successful_results_def and_then_def
           py_div_def Let_def)
  next
    case False
    then have ne: "results \<noteq> []" by auto
    from False obtain mn mx where
      "py_min (map execution_time ?succ) = Inr mn" "py_max (map execution_time ?succ) = Inr mx"
      using py_min_Cons [of "map execution_time ?succ"] py_max_Cons [of "map execution_time ?succ"]
      by auto
    with False ne show ?thesis
      by (simp add: get_execution_summary_def get_successful_results_def and_then_def
          py_div_def Let_def)
  qed
  show "\<exists>s. calculate_execution_summary results = Inr s
        \<and> (?succ = []
             \<longrightarrow> stat_average_time s = 0 \<and> stat_min_time s = 0 \<and> stat_max_time s = 0
               \<and> stat_total_time s = 0 \<and> stat_success_rate s = 0)"
  proof (cases "?succ = []")
    case True
    then show ?thesis
      by (simp add: calculate_execution_summary_def)
  next
    case False
    then have ne: "results \<noteq> []" by auto
    from False obtain mn mx where
      "py_min (map execution_time ?succ) = Inr mn" "py_max (map execution_time ?succ) = Inr mx"
      using py_min_Cons [of "map execution_time ?succ"] py_max_Cons [of "map execution_time ?succ"]
      by auto
    with False ne show ?thesis
      by (simp add: calculate_execution_summary_def and_then_def py_div_def Let_def)
  qed
qed

text \<open>
  The witness: the empty list, and a list whose only result is an error.
\<close>

theorem execution_summary_total_witness:
  "(\<exists>s. get_execution_summary [] = Inr s \<and> success_rate s = 0
        \<and> average_time s = 0 \<and> min_time s = 0 \<and> max_time s = 0)
   \<and> (\<exists>s. calculate_execution_summary [error_result (ascii ''gpt_search'') 7 empty_response]
            = Inr s
        \<and> stat_average_time s = 0 \<and> stat_min_time s = 0 \<and> stat_max_time s = 0
        \<and> stat_total_time s = 0 \<and> stat_success_rate s = 0)"
proof -
  have a: "get_successful_results [] = []"
    by (simp add: get_successful_results_def)
  have b: "filter (\<lambda>r. status r = Success)
             [error_result (ascii ''gpt_search'') 7 empty_response] = []"
    by (simp add: error_result_def)
  show ?thesis
    using execution_summary_total [of "[]"]
      execution_summary_total [of "[error_result (ascii ''gpt_search'') 7 empty_response]"] a b
    by auto
qed

subsection \<open>C8: aggregation and the clock\<close>

lemma calculate_execution_summary_returns:
  "\<exists>s. calculate_execution_summary results = Inr s"
proof (cases "filter (\<lambda>r. status r = Success) results = []")
  case True
  then show ?thesis by (simp add: calculate_execution_summary_def)
next
  case False
  let ?succ = "filter (\<lambda>r. status r = Success) results"
  from False have ne: "results \<noteq> []" by auto
  from False obtain mn mx where
    "py_min (map execution_time ?succ) = Inr mn" "py_max (map execution_time ?succ) = Inr mx"
    using py_min_Cons [of "map execution_time ?succ"] py_max_Cons [of "map execution_time ?succ"]
    by auto
  with False ne show ?thesis
    by (simp add: calculate_execution_summary_def and_then_def py_div_def Let_def)
qed

lemma summary_entries_returns:
  "\<forall>r \<in> set rs. ri_response r \<noteq> None \<Longrightarrow> \<exists>body. summary_entries fmt2f i rs = Inr body"
proof (induction rs arbitrary: i)
  case Nil
  then show ?case by simp
next
  case (Cons r rs)
  then obtain t where t: "ri_response r = Some t" by auto
  from Cons obtain more where "summary_entries fmt2f (i + 1) rs = Inr more"
    by fastforce
  with t show ?case
    by (simp add: and_then_def summary_entry_def)
qed

lemma generate_summary_text_returns:
  assumes "\<forall>r \<in> set responses. ri_status r = Success \<longrightarrow> ri_response r \<noteq> None"
  shows "\<exists>body. generate_summary_text fmt2f q responses stats = Inr body"
proof -
  let ?succ = "filter (\<lambda>r. ri_status r = Success) responses"
  have "\<forall>r \<in> set (sorted_reverse ri_response_length ?succ). ri_response r \<noteq> None"
    using assms by (auto simp: sorted_reverse_def)
  from summary_entries_returns [OF this] obtain body where
    "summary_entries fmt2f 1 (sorted_reverse ri_response_length ?succ) = Inr body"
    by blast
  then show ?thesis
    by (simp add: generate_summary_text_def and_then_def Let_def)
qed

text \<open>\<open>aggregate_results\<close> never raises.\<close>

lemma aggregate_results_returns:
  "\<exists>r. aggregate_results fmt2f now q results = Inr r"
proof -
  obtain s where s: "calculate_execution_summary results = Inr s"
    using calculate_execution_summary_returns by blast
  have "\<forall>r \<in> set (map response_info_of results).
          ri_status r = Success \<longrightarrow> ri_response r \<noteq> None"
    by (auto simp: response_info_of_def)
  from generate_summary_text_returns [OF this] obtain body where
    "generate_summary_text fmt2f q (map response_info_of results) s = Inr body"
    by blast
  with s show ?thesis
    by (simp add: aggregate_results_def and_then_def Let_def)
qed

text \<open>
  Claim C8 as stated fails: two calls on the same query and the same list, one second
  apart, return reports that differ (in their \<open>timestamp\<close> field).
\<close>

theorem aggregation_timestamp_counterexample:
  "aggregate_results (\<lambda>x. []) (ascii ''2025-01-01 10:00:00'') (ascii ''capital?'') [paris_result]
     \<noteq> aggregate_results (\<lambda>x. []) (ascii ''2025-01-01 10:00:01'') (ascii ''capital?'')
          [paris_result]"
proof -
  obtain r where r: "aggregate_results (\<lambda>x. []) (ascii ''2025-01-01 10:00:00'')
      (ascii ''capital?'') [paris_result] = Inr r"
    and t: "timestamp r = ascii ''2025-01-01 10:00:00''"
    using aggregate_results_returns [of "\<lambda>x. []" "ascii ''2025-01-01 10:00:00''"
        "ascii ''capital?''" "[paris_result]"]
    by (auto simp: aggregate_results_def and_then_def Let_def split: sum.splits)
  obtain r' where r': "aggregate_results (\<lambda>x. []) (ascii ''2025-01-01 10:00:01'')
      (ascii ''capital?'') [paris_result] = Inr r'"
    and t': "timestamp r' = ascii ''2025-01-01 10:00:01''"
    using aggregate_results_returns [of "\<lambda>x. []" "ascii ''2025-01-01 10:00:01''"
        "ascii ''capital?''" "[paris_result]"]
    by (auto simp: aggregate_results_def and_then_def Let_def split: sum.splits)
  have "timestamp r \<noteq> timestamp r'"
    unfolding t t' by (simp add: ascii_def)
  then show ?thesis using r r' by auto
qed

text \<open>
  Claim C8, amended: a call of the aggregator returns a report (it never raises) whose
  \<open>timestamp\<close> is the local time of the call; a second call on the same query and the
  same list returns a report that is identical in every field except \<open>timestamp\<close>. The
  report is a function of the query, the list and the clock reading alone: no other
  state is read or written.
\<close>

theorem aggregation_identical_except_timestamp:
  "\<exists>r. aggregate_results fmt2f now q results = Inr r \<and> timestamp r = now
       \<and> (\<forall>now'. aggregate_results fmt2f now' q results = Inr (r\<lparr>timestamp := now'\<rparr>))"
proof -
  obtain r where r: "aggregate_results fmt2f now q results = Inr r"
    using aggregate_results_returns by blast
  then have "timestamp r = now"
    by (auto simp: aggregate_results_def and_then_def Let_def split: sum.splits)
  moreover have "aggregate_results fmt2f now' q results = Inr (r\<lparr>timestamp := now'\<rparr>)" for now'
    using r by (auto simp: aggregate_results_def and_then_def Let_def split: sum.splits)
  ultimately show ?thesis using r by blast
qed

section \<open>Properties of the streaming classifier\<close>

subsection \<open>C9: the concrete scenario\<close>

text \<open>
  Claim C9: the single chunk \<open>Let me check.<think>reasoning here</think>The answer is
  42.\<close>, processed with \<open>suppress_thinking = True\<close>, gives the final text
  \<open>Let me check.The answer is 42.\<close>: the thinking span is cut out, the text around it
  is kept as it is, and nothing is inserted.
\<close>

theorem classifier_scenario:
  "process_streaming_response True
     [Delta (ascii ''Let me check.<think>reasoning here</think>The answer is 42.'')] EndOfStream
   = ascii ''Let me check.The answer is 42.''"
  by (simp add: stream_eval)

subsection \<open>The classifier against the reference\<close>

lemma cut_index_None:
  assumes "cut_index (py_find think_open t) (py_find think_close t) = None"
  shows "\<not> prefix think_open (drop j t) \<and> \<not> prefix think_close (drop j t)"
proof -
  from assms have "py_find think_open t = None" "py_find think_close t = None"
    by (cases "py_find think_open t"; cases "py_find think_close t"; simp)+
  then show ?thesis
    using py_find_None by blast
qed

lemma cut_index_least:
  assumes "cut_index (py_find think_open t) (py_find think_close t) = Some k" and "j < k"
  shows "\<not> prefix think_open (drop j t) \<and> \<not> prefix think_close (drop j t)"
  using assms
  by (cases "py_find think_open t"; cases "py_find think_close t")
     (auto dest: py_find_Some_least py_find_None)

lemma marker_prefix_length:
  "prefix think_open t \<or> prefix think_close t \<Longrightarrow> t \<noteq> []"
  by (auto simp: think_open_eq think_close_eq)

lemma cut_index_bound:
  assumes "cut_index (py_find think_open t) (py_find think_close t) = Some k"
  shows "k < length t"
proof -
  from cut_index_Some [OF assms] have "drop k t \<noteq> []"
    using marker_prefix_length by blast
  then show ?thesis by simp
qed

lemma ref_classify_skip:
  "\<forall>j<k. \<not> prefix think_open (drop j t) \<and> \<not> prefix think_close (drop j t) \<Longrightarrow>
   k \<le> length t \<Longrightarrow>
   ref_classify th t = map (Pair th) (take k t) @ ref_classify th (drop k t)"
proof (induction k arbitrary: t)
  case 0
  then show ?case by simp
next
  case (Suc k)
  then obtain c cs where t: "t = c # cs" by (cases t) auto
  from Suc.prems(1) have here: "\<not> prefix think_open t \<and> \<not> prefix think_close t"
    by (metis drop0 zero_less_Suc)
  have "\<forall>j<k. \<not> prefix think_open (drop j cs) \<and> \<not> prefix think_close (drop j cs)"
    using Suc.prems(1) t by (metis Suc_less_eq drop_Suc_Cons)
  moreover have "k \<le> length cs" using Suc.prems(2) t by simp
  ultimately have "ref_classify th cs = map (Pair th) (take k cs) @ ref_classify th (drop k cs)"
    by (rule Suc.IH)
  with here t show ?case by simp
qed

lemma ref_flag_skip:
  "\<forall>j<k. \<not> prefix think_open (drop j t) \<and> \<not> prefix think_close (drop j t) \<Longrightarrow>
   k \<le> length t \<Longrightarrow> ref_flag th t = ref_flag th (drop k t)"
proof (induction k arbitrary: t)
  case 0
  then show ?case by simp
next
  case (Suc k)
  then obtain c cs where t: "t = c # cs" by (cases t) auto
  from Suc.prems(1) have here: "\<not> prefix think_open t \<and> \<not> prefix think_close t"
    by (metis drop0 zero_less_Suc)
  have "\<forall>j<k. \<not> prefix think_open (drop j cs) \<and> \<not> prefix think_close (drop j cs)"
    using Suc.prems(1) t by (metis Suc_less_eq drop_Suc_Cons)
  moreover have "k \<le> length cs" using Suc.prems(2) t by simp
  ultimately have "ref_flag th cs = ref_flag th (drop k cs)"
    by (rule Suc.IH)
  with here t show ?case by simp
qed

lemma ref_markers_skip:
  "\<forall>j<k. \<not> prefix think_open (drop j t) \<and> \<not> prefix think_close (drop j t) \<Longrightarrow>
   k \<le> length t \<Longrightarrow> ref_markers t = ref_markers (drop k t)"
proof (induction k arbitrary: t)
  case 0
  then show ?case by simp
next
  case (Suc k)
  then obtain c cs where t: "t = c # cs" by (cases t) auto
  from Suc.prems(1) have here: "\<not> prefix think_open t \<and> \<not> prefix think_close t"
    by (metis drop0 zero_less_Suc)
  have "\<forall>j<k. \<not> prefix think_open (drop j cs) \<and> \<not> prefix think_close (drop j cs)"
    using Suc.prems(1) t by (metis Suc_less_eq drop_Suc_Cons)
  moreover have "k \<le> length cs" using Suc.prems(2) t by simp
  ultimately have "ref_markers cs = ref_markers (drop k cs)"
    by (rule Suc.IH)
  with here t show ?case by simp
qed


text \<open>One iteration of the loop against the reference.\<close>

lemma scan_step_ref:
  assumes "text \<noteq> []" and "scan_step s text st = (st', text')"
  shows "final_content st' @ kept s (ref_classify (in_thinking st') text')
           = final_content st @ kept s (ref_classify (in_thinking st) text)"
    and "ref_flag (in_thinking st') text' = ref_flag (in_thinking st) text"
    and "thinking_content st' @ ref_markers text' = thinking_content st @ ref_markers text"
    and "msg st' = msg st"
proof -
  let ?cut = "cut_index (py_find think_open text) (py_find think_close text)"
  have all: "final_content st' @ kept s (ref_classify (in_thinking st') text')
           = final_content st @ kept s (ref_classify (in_thinking st) text)
     \<and> ref_flag (in_thinking st') text' = ref_flag (in_thinking st) text
     \<and> thinking_content st' @ ref_markers text' = thinking_content st @ ref_markers text
     \<and> msg st' = msg st"
  proof (cases ?cut)
    case None
    have no: "\<forall>j<length text. \<not> prefix think_open (drop j text) \<and> \<not> prefix think_close (drop j text)"
      using cut_index_None [OF None] by blast
    have c: "ref_classify (in_thinking st) text = map (Pair (in_thinking st)) text"
      using ref_classify_skip [OF no, of "in_thinking st"] by simp
    have f: "ref_flag (in_thinking st) text = in_thinking st"
      using ref_flag_skip [OF no, of "in_thinking st"] by simp
    have m: "ref_markers text = []"
      using ref_markers_skip [OF no] by simp
    from None assms have "text' = []"
      and "st' = (if \<not> (in_thinking st \<and> s)
                  then st\<lparr>final_content := final_content st @ text\<rparr> else st)"
      by (auto simp: scan_step_def Let_def think_open_eq think_close_eq)
    then show ?thesis
      using c f m by (auto simp: kept_def comp_def)
  next
    case (Some k)
    have no: "\<forall>j<k. \<not> prefix think_open (drop j text) \<and> \<not> prefix think_close (drop j text)"
      using cut_index_least [OF Some] by blast
    have k: "k \<le> length text" using cut_index_bound [OF Some] by simp
    have c: "ref_classify (in_thinking st) text
               = map (Pair (in_thinking st)) (take k text) @ ref_classify (in_thinking st) (drop k text)"
      using ref_classify_skip [OF no k] .
    have f: "ref_flag (in_thinking st) text = ref_flag (in_thinking st) (drop k text)"
      using ref_flag_skip [OF no k] .
    have m: "ref_markers text = ref_markers (drop k text)"
      using ref_markers_skip [OF no k] .
    define st1 where "st1 = (if take k text \<noteq> [] \<and> \<not> (in_thinking st \<and> s)
                 then st\<lparr>final_content := final_content st @ take k text\<rparr> else st)"
    have st1: "final_content st1 = final_content st @ kept s (map (Pair (in_thinking st)) (take k text))"
      "in_thinking st1 = in_thinking st" "thinking_content st1 = thinking_content st"
      "msg st1 = msg st"
      by (auto simp: st1_def kept_def comp_def)
    obtain d ds where d: "drop k text = d # ds"
      using cut_index_bound [OF Some] by (cases "drop k text") auto
    from cut_index_Some [OF Some]
    consider (op) "prefix think_open (drop k text)"
      | (cl) "\<not> prefix think_open (drop k text)" "prefix think_close (drop k text)"
      by blast
    then show ?thesis
    proof cases
      case op
      from op Some assms(2) have r: "text' = drop (length think_open) (drop k text)"
        "st' = st1\<lparr>in_thinking := True, thinking_content := thinking_content st1 @ think_open\<rparr>"
        by (auto simp: scan_step_def Let_def st1_def)
      have "ref_classify (in_thinking st) (drop k text) = ref_classify True text'"
        "ref_flag (in_thinking st) (drop k text) = ref_flag True text'"
        "ref_markers (drop k text) = think_open @ ref_markers text'"
        using op unfolding r d by simp_all
      then show ?thesis
        using c f m st1 by (simp add: r kept_def)
    next
      case cl
      from cl Some assms(2) have r: "text' = drop (length think_close) (drop k text)"
        "st' = st1\<lparr>thinking_content := thinking_content st1 @ think_close, in_thinking := False\<rparr>"
        by (auto simp: scan_step_def Let_def st1_def)
      have "ref_classify (in_thinking st) (drop k text) = ref_classify False text'"
        "ref_flag (in_thinking st) (drop k text) = ref_flag False text'"
        "ref_markers (drop k text) = think_close @ ref_markers text'"
        using cl unfolding r d by simp_all
      then show ?thesis
        using c f m st1 by (simp add: r kept_def)
    qed
  qed
  from all show "final_content st' @ kept s (ref_classify (in_thinking st') text')
           = final_content st @ kept s (ref_classify (in_thinking st) text)"
    and "ref_flag (in_thinking st') text' = ref_flag (in_thinking st) text"
    and "thinking_content st' @ ref_markers text' = thinking_content st @ ref_markers text"
    and "msg st' = msg st"
    by simp_all
qed

text \<open>The loop over one fragment computes the reference classification of the fragment.\<close>

lemma scan_text_ref:
  "final_content (scan_text s raw st)
     = final_content st @ kept s (ref_classify (in_thinking st) raw)
   \<and> in_thinking (scan_text s raw st) = ref_flag (in_thinking st) raw
   \<and> thinking_content (scan_text s raw st) = thinking_content st @ ref_markers raw
   \<and> msg (scan_text s raw st) = msg st"
proof (induction s raw st rule: scan_text.induct)
  case (1 s st)
  then show ?case by (simp add: kept_def)
next
  case (2 s c cs st)
  obtain st' text' where step: "scan_step s (c # cs) st = (st', text')"
    by (cases "scan_step s (c # cs) st") auto
  have ih: "final_content (scan_text s text' st')
     = final_content st' @ kept s (ref_classify (in_thinking st') text')
   \<and> in_thinking (scan_text s text' st') = ref_flag (in_thinking st') text'
   \<and> thinking_content (scan_text s text' st') = thinking_content st' @ ref_markers text'
   \<and> msg (scan_text s text' st') = msg st'"
    using "2.IH" [OF step [symmetric]] .
  have ne: "c # cs \<noteq> []" by simp
  note r = scan_step_ref [OF ne step]
  show ?case
    using ih r by (simp add: step)
qed


lemma kept_append: "kept s (a @ b) = kept s a @ kept s b"
  by (simp add: kept_def)

text \<open>The loop over the stream classifies fragment by fragment.\<close>

lemma process_chunk_ref:
  "final_content (process_chunk s st ch)
     = final_content st @ kept s (ref_classify (in_thinking st) (chunk_raw ch))
   \<and> in_thinking (process_chunk s st ch) = ref_flag (in_thinking st) (chunk_raw ch)
   \<and> thinking_content (process_chunk s st ch)
       = thinking_content st @ ref_markers (chunk_raw ch)
   \<and> msg (process_chunk s st ch) = msg st @ chunk_raw ch"
  by (simp add: process_chunk_def Let_def scan_text_ref kept_def)

lemma foldl_process_chunk_ref:
  "final_content (foldl (process_chunk s) st chunks)
     = final_content st @ kept s (classify_fragments (in_thinking st) (map chunk_raw chunks))
   \<and> in_thinking (foldl (process_chunk s) st chunks)
       = foldl ref_flag (in_thinking st) (map chunk_raw chunks)
   \<and> thinking_content (foldl (process_chunk s) st chunks)
       = thinking_content st @ concat (map ref_markers (map chunk_raw chunks))
   \<and> msg (foldl (process_chunk s) st chunks) = msg st @ concat (map chunk_raw chunks)"
proof (induction chunks arbitrary: st)
  case Nil
  then show ?case by (simp add: kept_def)
next
  case (Cons ch chunks)
  show ?case
    using Cons.IH [of "process_chunk s st ch"] process_chunk_ref [of s st ch]
    by (simp add: kept_append)
qed

lemma after_stream_fields:
  "final_content (after_stream e st) = final_content st"
  "thinking_content (after_stream e st) = thinking_content st"
  "in_thinking (after_stream e st) = in_thinking st"
  "msg (after_stream EndOfStream st) = msg st"
  by (induction e st rule: after_stream.induct; simp)+

lemma run_stream_fragments:
  "final_content (run_stream s chunks e) = kept s (classify_fragments False (map chunk_raw chunks))"
  "thinking_content (run_stream s chunks e) = concat (map ref_markers (map chunk_raw chunks))"
  "msg (run_stream s chunks EndOfStream) = concat (map chunk_raw chunks)"
  using foldl_process_chunk_ref [of s initial_state chunks]
  by (simp_all add: run_stream_def after_stream_fields initial_state_def)

text \<open>Reading fragment by fragment is reading the whole text, when no marker is split.\<close>

lemma no_straddle_drop: "no_straddle a b \<Longrightarrow> no_straddle (drop n a) b"
proof (induction a arbitrary: n)
  case Nil
  then show ?case by simp
next
  case (Cons c cs)
  then show ?case by (cases n) simp_all
qed

lemma drop_marker_append:
  "prefix m a \<Longrightarrow> drop (length m) (a @ b) = drop (length m) a @ b"
  by (auto simp: prefix_def)

lemma ref_append:
  "no_straddle a b \<Longrightarrow>
   ref_classify th (a @ b) = ref_classify th a @ ref_classify (ref_flag th a) b
   \<and> ref_flag th (a @ b) = ref_flag (ref_flag th a) b
   \<and> ref_markers (a @ b) = ref_markers a @ ref_markers b"
proof (induction th a rule: ref_classify.induct)
  case (1 th)
  then show ?case by simp
next
  case (2 th c cs)
  show ?case
  proof (cases "prefix think_open (c # cs)")
    case True
    then have p: "prefix think_open (c # cs @ b)"
      by (metis append_Cons prefix_prefix)
    have d: "drop (length think_open) (c # cs @ b) = drop (length think_open) (c # cs) @ b"
      using drop_marker_append [OF True, of b] by simp
    have "no_straddle (drop (length think_open) (c # cs)) b"
      using "2.prems" by (rule no_straddle_drop)
    from "2.IH"(1) [OF True this] show ?thesis
      using True p d by simp
  next
    case False
    show ?thesis
    proof (cases "prefix think_close (c # cs)")
      case True
      then have p: "prefix think_close (c # cs @ b)"
        by (metis append_Cons prefix_prefix)
      from False "2.prems" have np: "\<not> prefix think_open (c # cs @ b)" by simp
      have d: "drop (length think_close) (c # cs @ b) = drop (length think_close) (c # cs) @ b"
        using drop_marker_append [OF True, of b] by simp
      have "no_straddle (drop (length think_close) (c # cs)) b"
        using "2.prems" by (rule no_straddle_drop)
      from "2.IH"(2) [OF False True this] show ?thesis
        using False True p np d by simp
    next
      case nc: False
      from False nc "2.prems" have np: "\<not> prefix think_open (c # cs @ b)"
        "\<not> prefix think_close (c # cs @ b)" and rest: "no_straddle cs b"
        by simp_all
      from "2.IH"(3) [OF False nc rest] show ?thesis
        using False nc np by simp
    qed
  qed
qed

lemma classify_fragments_whole:
  "markers_whole raws \<Longrightarrow>
   classify_fragments th raws = ref_classify th (concat raws)
   \<and> foldl ref_flag th raws = ref_flag th (concat raws)
   \<and> concat (map ref_markers raws) = ref_markers (concat raws)"
proof (induction raws arbitrary: th)
  case Nil
  then show ?case by simp
next
  case (Cons raw raws)
  then have a: "no_straddle raw (concat raws)" and b: "markers_whole raws" by simp_all
  show ?case
    using Cons.IH [OF b, of "ref_flag th raw"] ref_append [OF a, of th] by simp
qed

text \<open>The reference removes every marker once and keeps every other character.\<close>

lemma ref_lengths:
  "length (ref_classify th t) + length (ref_markers t) = length t"
proof (induction th t rule: ref_classify.induct)
  case (1 th)
  then show ?case by simp
next
  case (2 th c cs)
  then show ?case
    by (auto simp: think_open_eq think_close_eq prefix_def)
qed

text \<open>
  The three readings of a text add up: every marker is removed once and every other
  character is kept once, as answer text or as thinking text.
\<close>

lemma ref_portions:
  "length (ref_unmarked t) + length (ref_markers t) = length t"
  "length (ref_answer t) + length (ref_thinking t) = length (ref_unmarked t)"
proof -
  show "length (ref_unmarked t) + length (ref_markers t) = length t"
    using ref_lengths [of False t] by (simp add: ref_unmarked_def)
  have "length (filter (\<lambda>(th, c). \<not> th) xs) + length (filter (\<lambda>(th, c). th) xs) = length xs"
    for xs :: "(bool \<times> nat) list"
    by (induction xs) auto
  then show "length (ref_answer t) + length (ref_thinking t) = length (ref_unmarked t)"
    by (simp add: ref_answer_def ref_thinking_def ref_unmarked_def)
qed

lemma kept_ref:
  "kept True (ref_classify False t) = ref_answer t"
  "kept False (ref_classify False t) = ref_unmarked t"
  by (simp_all add: kept_def ref_answer_def ref_unmarked_def)

subsection \<open>C1: the round trip\<close>

lemmas ref_eval = ref_answer_def ref_thinking_def ref_unmarked_def

text \<open>
  Claim C1 as stated fails, in two ways. A marker that is split across two fragments is
  not recognised: of the fragments \<open><thi\<close> and \<open>nk>x</think>y\<close> the answer text is
  \<open><think>xy\<close>, where the non-thinking portion of the text is \<open>y\<close>. And there is no
  thinking stream: \<open>thinking_content\<close> collects the markers, not the thinking text; of
  the single fragment \<open><think>x</think>y\<close> it is \<open><think></think>\<close>, where the
  thinking portion is \<open>x\<close>.
\<close>

theorem split_marker_counterexample:
  "final_content (run_stream True [Delta (ascii ''<thi''), Delta (ascii ''nk>x</think>y'')]
       EndOfStream) = ascii ''<think>xy''
   \<and> ref_answer (ascii ''<thi'' @ ascii ''nk>x</think>y'') = ascii ''y''
   \<and> thinking_content (run_stream True [Delta (ascii ''<think>x</think>y'')] EndOfStream)
       = ascii ''<think></think>''
   \<and> ref_thinking (ascii ''<think>x</think>y'') = ascii ''x''"
  by (simp add: stream_eval ref_eval)

text \<open>
  Claim C1, amended: for every sequence of fragments in which no marker is split across
  fragments, with \<open>suppress_thinking = True\<close> the answer text (\<open>final_content\<close>) is
  exactly the non-thinking portion of the full text, and with
  \<open>suppress_thinking = False\<close> it is the full text with every marker removed once,
  answer and thinking text together in the order of arrival; no character is duplicated
  and none is dropped. The thinking text is not collected on its own:
  \<open>thinking_content\<close> holds the markers of the text. \<open>msg\<close> is the full text as
  received.
\<close>

theorem stream_round_trip:
  assumes "markers_whole (map chunk_raw chunks)"
  shows "final_content (run_stream True chunks e) = ref_answer (concat (map chunk_raw chunks))
    \<and> final_content (run_stream False chunks e) = ref_unmarked (concat (map chunk_raw chunks))
    \<and> thinking_content (run_stream s chunks e) = ref_markers (concat (map chunk_raw chunks))
    \<and> msg (run_stream s chunks EndOfStream) = concat (map chunk_raw chunks)
    \<and> length (ref_unmarked (concat (map chunk_raw chunks)))
        + length (ref_markers (concat (map chunk_raw chunks)))
        = length (concat (map chunk_raw chunks))"
  using classify_fragments_whole [OF assms, of False]
  by (simp add: run_stream_fragments kept_ref ref_portions)

text \<open>
  The witness: four items of a stream, one of them without text, with both markers
  inside fragments.
\<close>

theorem stream_round_trip_witness:
  "final_content (run_stream True whole_marker_stream EndOfStream) = ascii ''Hi  the answer''
   \<and> final_content (run_stream False whole_marker_stream EndOfStream)
       = ascii ''Hi hm the answer''
   \<and> thinking_content (run_stream True whole_marker_stream EndOfStream)
       = ascii ''<think></think>''"
proof -
  have h: "markers_whole (map chunk_raw whole_marker_stream)"
    by (simp add: whole_marker_stream_def think_open_def think_close_def ascii_def)
  have t: "concat (map chunk_raw whole_marker_stream) = ascii ''Hi <think>hm</think> the answer''"
    by (simp add: whole_marker_stream_def ascii_def)
  have r: "ref_answer (ascii ''Hi <think>hm</think> the answer'') = ascii ''Hi  the answer''"
    "ref_unmarked (ascii ''Hi <think>hm</think> the answer'') = ascii ''Hi hm the answer''"
    "ref_markers (ascii ''Hi <think>hm</think> the answer'') = ascii ''<think></think>''"
    by (simp_all add: ref_eval think_open_def think_close_def ascii_def)
  from stream_round_trip [OF h, of EndOfStream True] show ?thesis
    unfolding t r by simp
qed

subsection \<open>C7: the text of a success\<close>







end
